theory Spec2Isabelle
  imports Main
begin

section \<open>JSON values and the Python operations the handlers apply to them\<close>

text \<open>
  A request body and the \<open>presencas\<close> column are JSON values as Python holds them after
  parsing: \<open>None\<close>, a bool, an int, a str, a list or a dict. A dict is the list of its
  items; lookup takes the first item with the key. JSON numbers with a fraction or an
  exponent (Python floats) are not part of the model.
\<close>

datatype json =
    JNull
  | JBool bool
  | JInt int
  | JStr string
  | JList "json list"
  | JObj "(string \<times> json) list"

text \<open>The exceptions a handler can raise; one that no \<open>except\<close> catches ends the request
  as an unhandled fault (HTTP 500).\<close>

datatype exc = TypeError | ValueError | AttributeError | KeyError | DatabaseError

text \<open>Python truth value: \<open>not x\<close> is the negation of \<open>truthy x\<close>.\<close>

fun truthy :: "json \<Rightarrow> bool" where
  "truthy JNull = False"
| "truthy (JBool b) = b"
| "truthy (JInt n) = (n \<noteq> 0)"
| "truthy (JStr s) = (s \<noteq> [])"
| "truthy (JList xs) = (xs \<noteq> [])"
| "truthy (JObj kvs) = (kvs \<noteq> [])"

text \<open>\<open>x.get(k)\<close>: defined on a dict only; a missing key gives \<open>None\<close>.\<close>

fun py_get :: "json \<Rightarrow> string \<Rightarrow> exc + json" where
  "py_get (JObj kvs) k = (case map_of kvs k of None \<Rightarrow> Inr JNull | Some v \<Rightarrow> Inr v)"
| "py_get _ k = Inl AttributeError"

text \<open>\<open>v == n\<close> for an int \<open>n\<close>: ints by value, and \<open>True == 1\<close>, \<open>False == 0\<close>.\<close>

fun py_eq_int :: "json \<Rightarrow> int \<Rightarrow> bool" where
  "py_eq_int (JInt m) n = (m = n)"
| "py_eq_int (JBool b) n = ((if b then 1 else 0) = n)"
| "py_eq_int _ n = False"

fun is_JList :: "json \<Rightarrow> bool" where
  "is_JList (JList xs) = True"
| "is_JList _ = False"

fun is_JObj :: "json \<Rightarrow> bool" where
  "is_JObj (JObj kvs) = True"
| "is_JObj _ = False"

text \<open>\<open>sub in s\<close> on two strings: \<open>sub\<close> occurs in \<open>s\<close> as a contiguous piece.\<close>

fun starts_with :: "string \<Rightarrow> string \<Rightarrow> bool" where
  "starts_with s [] = True"
| "starts_with [] (c # cs) = False"
| "starts_with (d # ds) (c # cs) = (d = c \<and> starts_with ds cs)"

fun str_contains :: "string \<Rightarrow> string \<Rightarrow> bool" where
  "str_contains [] sub = (sub = [])"
| "str_contains (c # cs) sub = (starts_with (c # cs) sub \<or> str_contains cs sub)"

text \<open>\<open>k in x\<close> for a string \<open>k\<close>: a key of a dict, an element of a list, a piece of a
  string; \<open>None\<close>, bools and ints are not iterable.\<close>

fun py_in :: "string \<Rightarrow> json \<Rightarrow> exc + bool" where
  "py_in k (JObj kvs) = Inr (k \<in> set (map fst kvs))"
| "py_in k (JList xs) = Inr (list_ex (\<lambda>x. x = JStr k) xs)"
| "py_in k (JStr s) = Inr (str_contains s k)"
| "py_in k _ = Inl TypeError"

text \<open>\<open>x[k]\<close> for a string \<open>k\<close>: a dict's value or \<open>KeyError\<close>; anything else cannot be
  indexed by a string.\<close>

fun py_getitem :: "json \<Rightarrow> string \<Rightarrow> exc + json" where
  "py_getitem (JObj kvs) k = (case map_of kvs k of None \<Rightarrow> Inl KeyError | Some v \<Rightarrow> Inr v)"
| "py_getitem _ k = Inl TypeError"

text \<open>\<open>x.get(k, d)\<close>.\<close>

fun py_get_default :: "json \<Rightarrow> string \<Rightarrow> json \<Rightarrow> exc + json" where
  "py_get_default (JObj kvs) k d = (case map_of kvs k of None \<Rightarrow> Inr d | Some v \<Rightarrow> Inr v)"
| "py_get_default _ k d = Inl AttributeError"

text \<open>A query-string parameter as \<open>request.args.get\<close> returns it: a str, or \<open>None\<close> when
  the parameter is absent.\<close>

fun arg_value :: "string option \<Rightarrow> json" where
  "arg_value None = JNull"
| "arg_value (Some s) = JStr s"

subsection \<open>\<open>int(s)\<close> on a string\<close>

definition is_digit :: "char \<Rightarrow> bool" where
  "is_digit c = (48 \<le> (of_char c :: nat) \<and> (of_char c :: nat) \<le> 57)"

definition digit_val :: "char \<Rightarrow> nat" where
  "digit_val c = (of_char c :: nat) - 48"

text \<open>The whitespace \<open>int\<close> strips from an ASCII string: the space and the characters
  \<open>\t\<close>, \<open>\n\<close>, vertical tab, form feed and \<open>\r\<close>.\<close>

definition is_space :: "char \<Rightarrow> bool" where
  "is_space c = ((of_char c :: nat) = 32 \<or> (9 \<le> (of_char c :: nat) \<and> (of_char c :: nat) \<le> 13))"

definition strip :: "string \<Rightarrow> string" where
  "strip s = rev (dropWhile is_space (rev (dropWhile is_space s)))"

text \<open>The digits after the first one; an underscore is allowed between two digits.\<close>

fun more_digits :: "string \<Rightarrow> nat \<Rightarrow> nat option" where
  "more_digits [] acc = Some acc"
| "more_digits [c] acc = (if is_digit c then Some (10 * acc + digit_val c) else None)"
| "more_digits (c # d # ds) acc =
     (if is_digit c then more_digits (d # ds) (10 * acc + digit_val c)
      else if c = CHR ''_'' \<and> is_digit d then more_digits ds (10 * acc + digit_val d)
      else None)"

definition unsigned_int :: "string \<Rightarrow> nat option" where
  "unsigned_int s =
     (case s of
        [] \<Rightarrow> None
      | c # cs \<Rightarrow> if is_digit c then more_digits cs (digit_val c) else None)"

text \<open>The interpreter's default limit on the digits of a string converted to an integer.\<close>

definition int_max_str_digits :: nat where
  "int_max_str_digits = 4300"

text \<open>\<open>int(s)\<close>, base 10: surrounding whitespace, an optional sign, digits; \<open>ValueError\<close>
  for any other string, and for one with more digits than the limit. Only ASCII strings
  are covered.\<close>

definition py_int :: "string \<Rightarrow> exc + int" where
  "py_int s =
     (if int_max_str_digits < length (filter is_digit s) then Inl ValueError
      else
       (case strip s of
          [] \<Rightarrow> Inl ValueError
        | c # cs \<Rightarrow>
            if c = CHR ''-'' then
              (case unsigned_int cs of None \<Rightarrow> Inl ValueError | Some n \<Rightarrow> Inr (- int n))
            else if c = CHR ''+'' then
              (case unsigned_int cs of None \<Rightarrow> Inl ValueError | Some n \<Rightarrow> Inr (int n))
            else
              (case unsigned_int (c # cs) of None \<Rightarrow> Inl ValueError | Some n \<Rightarrow> Inr (int n))))"

section \<open>Calendar dates and \<open>datetime.strptime(s, '%Y-%m-%d')\<close>\<close>

record date =
  year :: nat
  month :: nat
  day :: nat

text \<open>A \<open>datetime\<close>: a date and the seconds since midnight.\<close>

record datetime =
  dt_date :: date
  dt_seconds :: nat

definition date_le :: "date \<Rightarrow> date \<Rightarrow> bool" where
  "date_le a b =
     (year a < year b \<or>
      (year a = year b \<and> (month a < month b \<or> (month a = month b \<and> day a \<le> day b))))"

text \<open>Comparison of timestamps; a date column compared with a \<open>datetime\<close> is its midnight.\<close>

definition datetime_le :: "datetime \<Rightarrow> datetime \<Rightarrow> bool" where
  "datetime_le a b =
     (if dt_date a = dt_date b then dt_seconds a \<le> dt_seconds b
      else date_le (dt_date a) (dt_date b))"

definition midnight :: "date \<Rightarrow> datetime" where
  "midnight d = \<lparr>dt_date = d, dt_seconds = 0\<rparr>"

definition is_leap :: "nat \<Rightarrow> bool" where
  "is_leap y = (y mod 4 = 0 \<and> (y mod 100 \<noteq> 0 \<or> y mod 400 = 0))"

definition days_in_month :: "nat \<Rightarrow> nat \<Rightarrow> nat" where
  "days_in_month y m =
     (if m = 2 then (if is_leap y then 29 else 28)
      else if m = 4 \<or> m = 6 \<or> m = 9 \<or> m = 11 then 30 else 31)"

text \<open>The directive \<open>%Y\<close> is four digits; \<open>%m\<close> is \<open>1[0-2]|0[1-9]|[1-9]\<close>; \<open>%d\<close> is
  \<open>3[01]|[12]\d|0[1-9]|[1-9]| [1-9]\<close>. Each parser returns the number read and the rest
  of the text.\<close>

definition parse_Y :: "string \<Rightarrow> (nat \<times> string) option" where
  "parse_Y s =
     (case s of
        a # b # c # d # rest \<Rightarrow>
          if is_digit a \<and> is_digit b \<and> is_digit c \<and> is_digit d
          then Some (1000 * digit_val a + 100 * digit_val b + 10 * digit_val c + digit_val d, rest)
          else None
      | _ \<Rightarrow> None)"

definition expect_dash :: "string \<Rightarrow> string option" where
  "expect_dash s = (case s of c # rest \<Rightarrow> if c = CHR ''-'' then Some rest else None | [] \<Rightarrow> None)"

definition two_digit_month :: "char \<Rightarrow> char \<Rightarrow> bool" where
  "two_digit_month a b =
     ((a = CHR ''1'' \<and> is_digit b \<and> digit_val b \<le> 2) \<or>
      (a = CHR ''0'' \<and> is_digit b \<and> 1 \<le> digit_val b))"

text \<open>The month and the dash after it. The one-digit alternative is tried when a two-digit
  one does not lead to a dash.\<close>

definition parse_m_dash :: "string \<Rightarrow> (nat \<times> string) option" where
  "parse_m_dash s =
     (case s of
        [] \<Rightarrow> None
      | a # s1 \<Rightarrow>
          (case (case s1 of
                   b # s2 \<Rightarrow>
                     if two_digit_month a b then
                       (case expect_dash s2 of
                          Some rest \<Rightarrow> Some (10 * digit_val a + digit_val b, rest)
                        | None \<Rightarrow> None)
                     else None
                 | [] \<Rightarrow> None) of
             Some r \<Rightarrow> Some r
           | None \<Rightarrow>
               if is_digit a \<and> 1 \<le> digit_val a then
                 (case expect_dash s1 of Some rest \<Rightarrow> Some (digit_val a, rest) | None \<Rightarrow> None)
               else None))"

text \<open>The day is the last directive: the first alternative that matches decides.\<close>

definition parse_d :: "string \<Rightarrow> (nat \<times> string) option" where
  "parse_d s =
     (case s of
        [] \<Rightarrow> None
      | a # s1 \<Rightarrow>
          (case s1 of
             [] \<Rightarrow> if is_digit a \<and> 1 \<le> digit_val a then Some (digit_val a, []) else None
           | b # s2 \<Rightarrow>
               if a = CHR ''3'' \<and> is_digit b \<and> digit_val b \<le> 1 then Some (30 + digit_val b, s2)
               else if (a = CHR ''1'' \<or> a = CHR ''2'') \<and> is_digit b
                 then Some (10 * digit_val a + digit_val b, s2)
               else if a = CHR ''0'' \<and> is_digit b \<and> 1 \<le> digit_val b then Some (digit_val b, s2)
               else if is_digit a \<and> 1 \<le> digit_val a then Some (digit_val a, s1)
               else if a = CHR '' '' \<and> is_digit b \<and> 1 \<le> digit_val b then Some (digit_val b, s2)
               else None))"

text \<open>\<open>datetime.strptime(v, '%Y-%m-%d')\<close>: \<open>TypeError\<close> when \<open>v\<close> is not a str,
  \<open>ValueError\<close> when the text does not match the format, has text left over, or names no
  calendar day (the years run from 1 to 9999); otherwise that day at midnight.\<close>

definition strptime_ymd :: "json \<Rightarrow> exc + datetime" where
  "strptime_ymd v =
     (case v of
        JStr s \<Rightarrow>
          (case parse_Y s of
             None \<Rightarrow> Inl ValueError
           | Some (y, s1) \<Rightarrow>
               (case expect_dash s1 of
                  None \<Rightarrow> Inl ValueError
                | Some s2 \<Rightarrow>
                    (case parse_m_dash s2 of
                       None \<Rightarrow> Inl ValueError
                     | Some (m, s3) \<Rightarrow>
                         (case parse_d s3 of
                            None \<Rightarrow> Inl ValueError
                          | Some (d, s4) \<Rightarrow>
                              if s4 \<noteq> [] then Inl ValueError
                              else if y < 1 \<or> days_in_month y m < d then Inl ValueError
                              else Inr (midnight \<lparr>year = y, month = m, day = d\<rparr>)))))
      | _ \<Rightarrow> Inl TypeError)"

section \<open>The tables\<close>

text \<open>
  One record per model class, with the columns as declared: a row as a query returns it.
  A column that a handler assigns straight from the request body holds a JSON value;
  \<open>None\<close> is SQL \<open>NULL\<close>. Times (\<open>created_at\<close>, \<open>updated_at\<close>) are seconds on the
  server's clock.
\<close>

record user =
  u_id :: int
  username :: string
  password_hash :: string
  u_created_at :: nat

record classe =
  c_id :: int
  c_nome :: json
  c_professor :: json
  c_created_at :: nat
  c_updated_at :: nat

record aluno =
  a_id :: int
  a_nome :: json
  data_nascimento :: date
  status :: json
  a_classe_id :: json
  a_created_at :: nat
  a_updated_at :: nat

record frequencia =
  f_id :: int
  f_classe_id :: json
  f_data :: date
  total_biblia :: json
  total_present :: json
  total_absent :: json
  total_visitors :: json
  total_general :: json
  presencas :: json
  f_created_at :: nat
  f_updated_at :: nat

text \<open>The database: the rows of the four tables, each in the order in which a query
  without a filter returns them.\<close>

record db =
  users :: "user list"
  classes :: "classe list"
  alunos :: "aluno list"
  frequencias :: "frequencia list"

definition empty_db :: db where
  "empty_db = \<lparr>users = [], classes = [], alunos = [], frequencias = []\<rparr>"

text \<open>\<open>query.get_or_404(id)\<close>: the row with the key, if there is one.\<close>

definition find_classe :: "db \<Rightarrow> int \<Rightarrow> classe option" where
  "find_classe d n = find (\<lambda>c. c_id c = n) (classes d)"

definition find_aluno :: "db \<Rightarrow> int \<Rightarrow> aluno option" where
  "find_aluno d n = find (\<lambda>a. a_id a = n) (alunos d)"

definition find_frequencia :: "db \<Rightarrow> int \<Rightarrow> frequencia option" where
  "find_frequencia d n = find (\<lambda>f. f_id f = n) (frequencias d)"

section \<open>What a handler hands to \<open>db.session.commit()\<close>\<close>

text \<open>
  A handler builds a new object or assigns attributes of a loaded one, and then calls
  \<open>db.session.commit()\<close>. What the commit does with the object is decided by the
  object-relational mapper and the database server, neither of which is part of the
  source: which values a column takes or converts, which rows a constraint refuses, the
  key, the defaults and the timestamps a row receives, the place of the row in later
  query results, what a refused commit consumes. The commit is therefore a parameter of
  every handler that writes. It receives the database and what the handler hands over,
  and answers with the row as stored, or with the exception it raised, together with the
  database it leaves behind.
\<close>

text \<open>The objects the handlers construct, with the keyword arguments of the constructor
  calls: \<open>User(username=...)\<close> followed by \<open>set_password\<close>, \<open>Classe(nome=..., professor=...)\<close>,
  \<open>Aluno(nome=..., data_nascimento=..., classe_id=...)\<close> and \<open>Frequencia(...)\<close>. The date
  arguments are the \<open>datetime\<close> values \<open>strptime\<close> returned.\<close>

record pending_user =
  pu_username :: string
  pu_password_hash :: string

record pending_classe =
  pc_nome :: json
  pc_professor :: json

record pending_aluno =
  pa_nome :: json
  pa_data_nascimento :: datetime
  pa_classe_id :: json

record pending_frequencia =
  pf_classe_id :: json
  pf_data :: datetime
  pf_total_biblia :: json
  pf_total_present :: json
  pf_total_absent :: json
  pf_total_visitors :: json
  pf_total_general :: json
  pf_presencas :: json

text \<open>The attribute assignments an update handler makes on the loaded row: \<open>Some v\<close> when
  the handler executed \<open>row.attribute = v\<close>, \<open>None\<close> when it did not.\<close>

record classe_assign =
  sc_nome :: "json option"
  sc_professor :: "json option"

record aluno_assign =
  sa_nome :: "json option"
  sa_data_nascimento :: "datetime option"
  sa_classe_id :: "json option"
  sa_status :: "json option"

record frequencia_assign =
  sf_classe_id :: "json option"
  sf_data :: "datetime option"
  sf_total_biblia :: "json option"
  sf_total_present :: "json option"
  sf_total_absent :: "json option"
  sf_total_visitors :: "json option"
  sf_total_general :: "json option"
  sf_presencas :: "json option"

text \<open>The commits of the ten handlers that write: after \<open>db.session.add\<close> of a new object,
  after assignments to a loaded row, after \<open>db.session.delete\<close> of a loaded row.\<close>

record store =
  add_user :: "db \<Rightarrow> pending_user \<Rightarrow> (exc + user) \<times> db"
  add_classe :: "db \<Rightarrow> pending_classe \<Rightarrow> (exc + classe) \<times> db"
  add_aluno :: "db \<Rightarrow> pending_aluno \<Rightarrow> (exc + aluno) \<times> db"
  add_frequencia :: "db \<Rightarrow> pending_frequencia \<Rightarrow> (exc + frequencia) \<times> db"
  change_classe :: "db \<Rightarrow> classe \<Rightarrow> classe_assign \<Rightarrow> (exc + classe) \<times> db"
  change_aluno :: "db \<Rightarrow> aluno \<Rightarrow> aluno_assign \<Rightarrow> (exc + aluno) \<times> db"
  change_frequencia :: "db \<Rightarrow> frequencia \<Rightarrow> frequencia_assign \<Rightarrow> (exc + frequencia) \<times> db"
  delete_classe :: "db \<Rightarrow> classe \<Rightarrow> (exc + unit) \<times> db"
  delete_aluno :: "db \<Rightarrow> aluno \<Rightarrow> (exc + unit) \<times> db"
  delete_frequencia :: "db \<Rightarrow> frequencia \<Rightarrow> (exc + unit) \<times> db"

section \<open>Session tokens\<close>

text \<open>
  Modelled from the spec: the session issuer and verifier (section 4.2). The handlers call
  \<open>create_access_token\<close> and \<open>jwt_required\<close> of a library that is not part of the source;
  the token is modelled as the specification describes it: the identity, an absolute
  expiry, and a signature over both under the process-wide secret. The signing function
  is a parameter.
\<close>

record token =
  t_identity :: int
  t_expiry :: nat
  t_signature :: nat

datatype token_error = ExpiredToken | InvalidSignature

definition create_access_token ::
    "(string \<Rightarrow> int \<times> nat \<Rightarrow> nat) \<Rightarrow> string \<Rightarrow> nat \<Rightarrow> int \<Rightarrow> nat \<Rightarrow> token" where
  "create_access_token sign secret now identity expires_delta =
     \<lparr>t_identity = identity, t_expiry = now + expires_delta,
      t_signature = sign secret (identity, now + expires_delta)\<rparr>"

definition verify_token ::
    "(string \<Rightarrow> int \<times> nat \<Rightarrow> nat) \<Rightarrow> string \<Rightarrow> nat \<Rightarrow> token \<Rightarrow> token_error + int" where
  "verify_token sign secret now t =
     (if t_signature t \<noteq> sign secret (t_identity t, t_expiry t) then Inl InvalidSignature
      else if t_expiry t \<le> now then Inl ExpiredToken
      else Inr (t_identity t))"

text \<open>\<open>timedelta(hours=1)\<close>, in seconds.\<close>

definition one_hour :: nat where
  "one_hour = 3600"

section \<open>Responses\<close>

text \<open>A response is a status code and a body. The bodies that are \<open>to_dict()\<close> of a row
  carry the row; \<open>MsgError\<close> carries the message and the exception whose text is the
  \<open>error\<close> field.\<close>

text \<open>The fixed texts of the \<open>msg\<close> field, one constructor per text in the source.\<close>

datatype message =
    Username_e_password_obrigatorios
  | Username_ja_existe
  | Credenciais_invalidas
  | Campos_nome_e_professor_obrigatorios
  | Campos_obrigatorios_ausentes
  | Formato_de_data_invalido
  | Campos_classe_id_e_data_obrigatorios
  | Parametros_mes_e_ano_obrigatorios
  | Classe_deletada
  | Aluno_deletado
  | Frequencia_deletada

datatype body =
    Msg message
  | MsgError message exc
  | NotFound
  | AccessToken token
  | UserBody user
  | ClasseBody classe
  | AlunoBody aluno
  | FrequenciaBody frequencia
  | Frequencias "frequencia list"
  | Historico "(frequencia \<times> json) list"

type_synonym response = "nat \<times> body"

section \<open>The handlers\<close>

text \<open>
  A handler that writes returns its outcome and the database after the request. The
  outcome is a response, or the exception that left the handler uncaught. Assignments to
  a loaded row stay in the request's session until \<open>db.session.commit()\<close>; a request that
  ends without reaching the commit leaves the database as it was. The handlers below are
  the bodies behind \<open>@jwt_required()\<close>.
\<close>

type_synonym outcome = "(exc + response) \<times> db"

text \<open>The end of a handler that writes: \<open>db.session.commit()\<close> and then
  \<open>return jsonify(...), code\<close>. An exception of the commit leaves the handler.\<close>

definition answer :: "nat \<Rightarrow> ('a \<Rightarrow> body) \<Rightarrow> (exc + 'a) \<times> db \<Rightarrow> outcome" where
  "answer code to_body committed =
     (case committed of
        (Inl e, d') \<Rightarrow> (Inl e, d')
      | (Inr row, d') \<Rightarrow> (Inr (code, to_body row), d'))"

subsection \<open>Credentials\<close>

text \<open>\<open>POST /register\<close>. \<open>generate_password_hash\<close> is the library's hash function; it is
  defined on text only. The query by username is answered for a textual username.\<close>

definition register ::
    "(string \<Rightarrow> string) \<Rightarrow> (db \<Rightarrow> pending_user \<Rightarrow> (exc + user) \<times> db) \<Rightarrow> db \<Rightarrow> json
      \<Rightarrow> outcome" where
  "register generate_password_hash commit d data =
     (if \<not> truthy data then (Inr (400, Msg Username_e_password_obrigatorios), d)
      else
       (case py_get data ''username'' of
          Inl e \<Rightarrow> (Inl e, d)
        | Inr u \<Rightarrow>
           (if \<not> truthy u then (Inr (400, Msg Username_e_password_obrigatorios), d)
            else
             (case py_get data ''password'' of
                Inl e \<Rightarrow> (Inl e, d)
              | Inr p \<Rightarrow>
                 (if \<not> truthy p then (Inr (400, Msg Username_e_password_obrigatorios), d)
                  else
                   (case u of
                      JStr name \<Rightarrow>
                        (case find (\<lambda>x. username x = name) (users d) of
                           Some existing \<Rightarrow> (Inr (400, Msg Username_ja_existe), d)
                         | None \<Rightarrow>
                             (case p of
                                JStr password \<Rightarrow>
                                  answer 201 UserBody
                                    (commit d \<lparr>pu_username = name,
                                       pu_password_hash = generate_password_hash password\<rparr>)
                              | _ \<Rightarrow> (Inl AttributeError, d)))
                    | _ \<Rightarrow> (Inl DatabaseError, d)))))))"

text \<open>\<open>POST /login\<close>. \<open>check_password_hash\<close> is the library's check of a password against
  a stored hash.\<close>

definition login ::
    "(string \<Rightarrow> json \<Rightarrow> exc + bool) \<Rightarrow> (string \<Rightarrow> int \<times> nat \<Rightarrow> nat) \<Rightarrow> string \<Rightarrow> nat
      \<Rightarrow> db \<Rightarrow> json \<Rightarrow> exc + response" where
  "login check_password_hash sign secret now d data =
     (if \<not> truthy data then Inr (400, Msg Username_e_password_obrigatorios)
      else
       (case py_get data ''username'' of
          Inl e \<Rightarrow> Inl e
        | Inr u \<Rightarrow>
           (if \<not> truthy u then Inr (400, Msg Username_e_password_obrigatorios)
            else
             (case py_get data ''password'' of
                Inl e \<Rightarrow> Inl e
              | Inr p \<Rightarrow>
                 (if \<not> truthy p then Inr (400, Msg Username_e_password_obrigatorios)
                  else
                   (case u of
                      JStr name \<Rightarrow>
                        (case find (\<lambda>x. username x = name) (users d) of
                           None \<Rightarrow> Inr (401, Msg Credenciais_invalidas)
                         | Some user \<Rightarrow>
                             (case check_password_hash (password_hash user) p of
                                Inl e \<Rightarrow> Inl e
                              | Inr ok \<Rightarrow>
                                  if ok then
                                    Inr (200, AccessToken
                                      (create_access_token sign secret now (u_id user) one_hour))
                                  else Inr (401, Msg Credenciais_invalidas)))
                    | _ \<Rightarrow> Inl DatabaseError))))))"

subsection \<open>Classes\<close>

text \<open>\<open>POST /classes\<close>.\<close>

definition criar_classe ::
    "(db \<Rightarrow> pending_classe \<Rightarrow> (exc + classe) \<times> db) \<Rightarrow> db \<Rightarrow> json \<Rightarrow> outcome" where
  "criar_classe commit d data =
     (if \<not> truthy data then (Inr (400, Msg Campos_nome_e_professor_obrigatorios), d)
      else
       (case py_get data ''nome'' of
          Inl e \<Rightarrow> (Inl e, d)
        | Inr nome \<Rightarrow>
           (if \<not> truthy nome then (Inr (400, Msg Campos_nome_e_professor_obrigatorios), d)
            else
             (case py_get data ''professor'' of
                Inl e \<Rightarrow> (Inl e, d)
              | Inr professor \<Rightarrow>
                 (if \<not> truthy professor
                  then (Inr (400, Msg Campos_nome_e_professor_obrigatorios), d)
                  else answer 201 ClasseBody
                         (commit d \<lparr>pc_nome = nome, pc_professor = professor\<rparr>))))))"

text \<open>\<open>if k in data: row.attribute = data[k]\<close>: the assignment made, if any.\<close>

definition assigned :: "string \<Rightarrow> json \<Rightarrow> exc + json option" where
  "assigned k data =
     (case py_in k data of
        Inl e \<Rightarrow> Inl e
      | Inr present \<Rightarrow>
          if present then (case py_getitem data k of Inl e \<Rightarrow> Inl e | Inr v \<Rightarrow> Inr (Some v))
          else Inr None)"

text \<open>\<open>PUT /classes/<int:classe_id>\<close>.\<close>

definition atualizar_classe ::
    "(db \<Rightarrow> classe \<Rightarrow> classe_assign \<Rightarrow> (exc + classe) \<times> db) \<Rightarrow> db \<Rightarrow> int \<Rightarrow> json
      \<Rightarrow> outcome" where
  "atualizar_classe commit d classe_id data =
     (case find_classe d classe_id of
        None \<Rightarrow> (Inr (404, NotFound), d)
      | Some classe \<Rightarrow>
          (case assigned ''nome'' data of
             Inl e \<Rightarrow> (Inl e, d)
           | Inr nome \<Rightarrow>
               (case assigned ''professor'' data of
                  Inl e \<Rightarrow> (Inl e, d)
                | Inr professor \<Rightarrow>
                    answer 200 ClasseBody
                      (commit d classe \<lparr>sc_nome = nome, sc_professor = professor\<rparr>))))"

text \<open>\<open>DELETE /classes/<int:classe_id>\<close>.\<close>

definition deletar_classe ::
    "(db \<Rightarrow> classe \<Rightarrow> (exc + unit) \<times> db) \<Rightarrow> db \<Rightarrow> int \<Rightarrow> outcome" where
  "deletar_classe commit d classe_id =
     (case find_classe d classe_id of
        None \<Rightarrow> (Inr (404, NotFound), d)
      | Some classe \<Rightarrow> answer 200 (\<lambda>u. Msg Classe_deletada) (commit d classe))"

subsection \<open>Students\<close>

text \<open>\<open>all(field in data for field in required_fields)\<close>.\<close>

fun all_in :: "string list \<Rightarrow> json \<Rightarrow> exc + bool" where
  "all_in [] data = Inr True"
| "all_in (field # rest) data =
     (case py_in field data of
        Inl e \<Rightarrow> Inl e
      | Inr present \<Rightarrow> if present then all_in rest data else Inr False)"

text \<open>\<open>datetime.strptime(data[k], '%Y-%m-%d')\<close>.\<close>

definition strptime_item :: "json \<Rightarrow> string \<Rightarrow> exc + datetime" where
  "strptime_item data k =
     (case py_getitem data k of Inl e \<Rightarrow> Inl e | Inr v \<Rightarrow> strptime_ymd v)"

text \<open>\<open>POST /alunos\<close>. The \<open>try\<close> covers the three reads of \<open>data\<close> and the parsing of the
  date; \<open>status\<close> is not passed to the constructor.\<close>

definition criar_aluno ::
    "(db \<Rightarrow> pending_aluno \<Rightarrow> (exc + aluno) \<times> db) \<Rightarrow> db \<Rightarrow> json \<Rightarrow> outcome" where
  "criar_aluno commit d data =
     (case all_in [''nome'', ''data_nascimento'', ''classe_id''] data of
        Inl e \<Rightarrow> (Inl e, d)
      | Inr complete \<Rightarrow>
          if \<not> complete then (Inr (400, Msg Campos_obrigatorios_ausentes), d)
          else
           (case py_getitem data ''nome'' of
              Inl e \<Rightarrow> (Inr (400, MsgError Formato_de_data_invalido e), d)
            | Inr nome \<Rightarrow>
              (case strptime_item data ''data_nascimento'' of
                 Inl e \<Rightarrow> (Inr (400, MsgError Formato_de_data_invalido e), d)
               | Inr nascimento \<Rightarrow>
                   (case py_getitem data ''classe_id'' of
                      Inl e \<Rightarrow> (Inr (400, MsgError Formato_de_data_invalido e), d)
                    | Inr classe_id \<Rightarrow>
                        answer 201 AlunoBody
                          (commit d \<lparr>pa_nome = nome, pa_data_nascimento = nascimento,
                             pa_classe_id = classe_id\<rparr>)))))"

text \<open>\<open>if k in data: try: row.attribute = datetime.strptime(data[k], '%Y-%m-%d')\<close>: the
  assignment made, if any, or the exception the \<open>try\<close> catches.\<close>

definition assigned_date :: "bool \<Rightarrow> string \<Rightarrow> json \<Rightarrow> exc + datetime option" where
  "assigned_date present k data =
     (if present then (case strptime_item data k of Inl e \<Rightarrow> Inl e | Inr v \<Rightarrow> Inr (Some v))
      else Inr None)"

text \<open>\<open>PUT /alunos/<int:aluno_id>\<close>. The assignment of \<open>nome\<close> precedes the parsing of the
  date; when the parsing fails the handler returns before the commit.\<close>

definition atualizar_aluno ::
    "(db \<Rightarrow> aluno \<Rightarrow> aluno_assign \<Rightarrow> (exc + aluno) \<times> db) \<Rightarrow> db \<Rightarrow> int \<Rightarrow> json
      \<Rightarrow> outcome" where
  "atualizar_aluno commit d aluno_id data =
     (case find_aluno d aluno_id of
        None \<Rightarrow> (Inr (404, NotFound), d)
      | Some aluno \<Rightarrow>
          (case assigned ''nome'' data of
             Inl e \<Rightarrow> (Inl e, d)
           | Inr nome \<Rightarrow>
               (case py_in ''data_nascimento'' data of
                  Inl e \<Rightarrow> (Inl e, d)
                | Inr has_date \<Rightarrow>
                    (case assigned_date has_date ''data_nascimento'' data of
                       Inl e \<Rightarrow> (Inr (400, MsgError Formato_de_data_invalido e), d)
                     | Inr nascimento \<Rightarrow>
                         (case assigned ''classe_id'' data of
                            Inl e \<Rightarrow> (Inl e, d)
                          | Inr classe_id \<Rightarrow>
                              (case assigned ''status'' data of
                                 Inl e \<Rightarrow> (Inl e, d)
                               | Inr st \<Rightarrow>
                                   answer 200 AlunoBody
                                     (commit d aluno
                                        \<lparr>sa_nome = nome, sa_data_nascimento = nascimento,
                                         sa_classe_id = classe_id, sa_status = st\<rparr>)))))))"

text \<open>\<open>DELETE /alunos/<int:aluno_id>\<close>.\<close>

definition deletar_aluno ::
    "(db \<Rightarrow> aluno \<Rightarrow> (exc + unit) \<times> db) \<Rightarrow> db \<Rightarrow> int \<Rightarrow> outcome" where
  "deletar_aluno commit d aluno_id =
     (case find_aluno d aluno_id of
        None \<Rightarrow> (Inr (404, NotFound), d)
      | Some aluno \<Rightarrow> answer 200 (\<lambda>u. Msg Aluno_deletado) (commit d aluno))"

subsection \<open>Attendance records\<close>

text \<open>\<open>POST /frequencias\<close>. The \<open>try\<close> covers every read of \<open>data\<close> after the check of
  the required fields. A count the body gives as \<open>null\<close> reaches the constructor as
  \<open>None\<close>.\<close>

definition registrar_frequencia ::
    "(db \<Rightarrow> pending_frequencia \<Rightarrow> (exc + frequencia) \<times> db) \<Rightarrow> db \<Rightarrow> json \<Rightarrow> outcome" where
  "registrar_frequencia commit d data =
     (case all_in [''classe_id'', ''data''] data of
        Inl e \<Rightarrow> (Inl e, d)
      | Inr complete \<Rightarrow>
          if \<not> complete then (Inr (400, Msg Campos_classe_id_e_data_obrigatorios), d)
          else
          (case py_getitem data ''classe_id'' of
            Inl e \<Rightarrow> (Inr (400, MsgError Formato_de_data_invalido e), d)
          | Inr classe_id \<Rightarrow>
          (case strptime_item data ''data'' of
            Inl e \<Rightarrow> (Inr (400, MsgError Formato_de_data_invalido e), d)
          | Inr dia \<Rightarrow>
          (case py_get_default data ''total_biblia'' (JInt 0) of
            Inl e \<Rightarrow> (Inr (400, MsgError Formato_de_data_invalido e), d)
          | Inr biblia \<Rightarrow>
          (case py_get_default data ''total_present'' (JInt 0) of
            Inl e \<Rightarrow> (Inr (400, MsgError Formato_de_data_invalido e), d)
          | Inr present \<Rightarrow>
          (case py_get_default data ''total_absent'' (JInt 0) of
            Inl e \<Rightarrow> (Inr (400, MsgError Formato_de_data_invalido e), d)
          | Inr absent \<Rightarrow>
          (case py_get_default data ''total_visitors'' (JInt 0) of
            Inl e \<Rightarrow> (Inr (400, MsgError Formato_de_data_invalido e), d)
          | Inr visitors \<Rightarrow>
          (case py_get_default data ''total_general'' (JInt 0) of
            Inl e \<Rightarrow> (Inr (400, MsgError Formato_de_data_invalido e), d)
          | Inr general \<Rightarrow>
          (case py_get_default data ''presencas'' (JList []) of
            Inl e \<Rightarrow> (Inr (400, MsgError Formato_de_data_invalido e), d)
          | Inr ps \<Rightarrow>
              answer 201 FrequenciaBody
                (commit d \<lparr>pf_classe_id = classe_id, pf_data = dia,
                   pf_total_biblia = biblia, pf_total_present = present,
                   pf_total_absent = absent, pf_total_visitors = visitors,
                   pf_total_general = general, pf_presencas = ps\<rparr>))))))))))"

text \<open>\<open>PUT /frequencias/<int:frequencia_id>\<close>.\<close>

definition atualizar_frequencia ::
    "(db \<Rightarrow> frequencia \<Rightarrow> frequencia_assign \<Rightarrow> (exc + frequencia) \<times> db) \<Rightarrow> db \<Rightarrow> int
      \<Rightarrow> json \<Rightarrow> outcome" where
  "atualizar_frequencia commit d frequencia_id data =
     (case find_frequencia d frequencia_id of
        None \<Rightarrow> (Inr (404, NotFound), d)
      | Some frequencia \<Rightarrow>
          (case assigned ''classe_id'' data of
            Inl e \<Rightarrow> (Inl e, d)
          | Inr classe_id \<Rightarrow>
          (case py_in ''data'' data of
            Inl e \<Rightarrow> (Inl e, d)
          | Inr has_date \<Rightarrow>
          (case assigned_date has_date ''data'' data of
            Inl e \<Rightarrow> (Inr (400, MsgError Formato_de_data_invalido e), d)
          | Inr dia \<Rightarrow>
          (case assigned ''total_biblia'' data of
            Inl e \<Rightarrow> (Inl e, d)
          | Inr biblia \<Rightarrow>
          (case assigned ''total_present'' data of
            Inl e \<Rightarrow> (Inl e, d)
          | Inr present \<Rightarrow>
          (case assigned ''total_absent'' data of
            Inl e \<Rightarrow> (Inl e, d)
          | Inr absent \<Rightarrow>
          (case assigned ''total_visitors'' data of
            Inl e \<Rightarrow> (Inl e, d)
          | Inr visitors \<Rightarrow>
          (case assigned ''total_general'' data of
            Inl e \<Rightarrow> (Inl e, d)
          | Inr general \<Rightarrow>
          (case assigned ''presencas'' data of
            Inl e \<Rightarrow> (Inl e, d)
          | Inr ps \<Rightarrow>
              answer 200 FrequenciaBody
                (commit d frequencia
                   \<lparr>sf_classe_id = classe_id, sf_data = dia,
                    sf_total_biblia = biblia, sf_total_present = present,
                    sf_total_absent = absent, sf_total_visitors = visitors,
                    sf_total_general = general, sf_presencas = ps\<rparr>)))))))))))"

text \<open>\<open>DELETE /frequencias/<int:frequencia_id>\<close>.\<close>

definition deletar_frequencia ::
    "(db \<Rightarrow> frequencia \<Rightarrow> (exc + unit) \<times> db) \<Rightarrow> db \<Rightarrow> int \<Rightarrow> outcome" where
  "deletar_frequencia commit d frequencia_id =
     (case find_frequencia d frequencia_id of
        None \<Rightarrow> (Inr (404, NotFound), d)
      | Some frequencia \<Rightarrow> answer 200 (\<lambda>u. Msg Frequencia_deletada) (commit d frequencia))"

subsection \<open>Reports\<close>

text \<open>\<open>GET /relatorios/semanal\<close>. \<open>Frequencia.data.between(start_date, end_date)\<close> compares
  the date column with the two parsed datetimes, bounds included.\<close>

definition relatorio_semanal :: "db \<Rightarrow> string option \<Rightarrow> string option \<Rightarrow> exc + response" where
  "relatorio_semanal d data_inicio data_fim =
     (case strptime_ymd (arg_value data_inicio) of
        Inl e \<Rightarrow> Inr (400, MsgError Formato_de_data_invalido e)
      | Inr start_date \<Rightarrow>
          (case strptime_ymd (arg_value data_fim) of
             Inl e \<Rightarrow> Inr (400, MsgError Formato_de_data_invalido e)
           | Inr end_date \<Rightarrow>
               Inr (200, Frequencias
                 (filter (\<lambda>f. datetime_le start_date (midnight (f_data f)) \<and>
                              datetime_le (midnight (f_data f)) end_date)
                    (frequencias d)))))"

text \<open>\<open>GET /relatorios/mensal\<close>. The two \<open>int(...)\<close> calls are outside any \<open>try\<close>.\<close>

definition relatorio_mensal :: "db \<Rightarrow> string option \<Rightarrow> string option \<Rightarrow> exc + response" where
  "relatorio_mensal d mes ano =
     (if \<not> truthy (arg_value mes) \<or> \<not> truthy (arg_value ano)
      then Inr (400, Msg Parametros_mes_e_ano_obrigatorios)
      else
       (case (mes, ano) of
          (Some m, Some a) \<Rightarrow>
          (case py_int m of
             Inl e \<Rightarrow> Inl e
           | Inr mes_int \<Rightarrow>
               (case py_int a of
                  Inl e \<Rightarrow> Inl e
                | Inr ano_int \<Rightarrow>
                    Inr (200, Frequencias
                      (filter (\<lambda>f. int (month (f_data f)) = mes_int \<and>
                                   int (year (f_data f)) = ano_int)
                         (frequencias d)))))
        | _ \<Rightarrow> Inr (400, Msg Parametros_mes_e_ano_obrigatorios)))"

subsection \<open>Per-student history\<close>

text \<open>The inner loop over one attendance-log: the first entry whose \<open>aluno_id\<close> equals the
  given id, stopping there (\<open>break\<close>); \<open>presenca.get\<close> raises on an entry that is not a
  dict.\<close>

fun first_presenca :: "json list \<Rightarrow> int \<Rightarrow> exc + json option" where
  "first_presenca [] aluno_id = Inr None"
| "first_presenca (presenca # rest) aluno_id =
     (case py_get presenca ''aluno_id'' of
        Inl e \<Rightarrow> Inl e
      | Inr v \<Rightarrow> if py_eq_int v aluno_id then Inr (Some presenca)
               else first_presenca rest aluno_id)"

text \<open>The outer loop. A history element is the record (its \<open>to_dict\<close>) together with the
  entry stored under \<open>'presenca'\<close>.\<close>

fun historico_loop :: "frequencia list \<Rightarrow> int \<Rightarrow> (frequencia \<times> json) list
    \<Rightarrow> exc + (frequencia \<times> json) list" where
  "historico_loop [] aluno_id historico = Inr historico"
| "historico_loop (freq # rest) aluno_id historico =
     (if truthy (presencas freq) \<and> is_JList (presencas freq) then
        (case presencas freq of
           JList ps \<Rightarrow>
             (case first_presenca ps aluno_id of
                Inl e \<Rightarrow> Inl e
              | Inr None \<Rightarrow> historico_loop rest aluno_id historico
              | Inr (Some presenca) \<Rightarrow>
                  historico_loop rest aluno_id (historico @ [(freq, presenca)]))
         | _ \<Rightarrow> historico_loop rest aluno_id historico)
      else historico_loop rest aluno_id historico)"

text \<open>\<open>GET /alunos/<int:aluno_id>/historico\<close>.\<close>

definition historico_frequencia :: "db \<Rightarrow> int \<Rightarrow> exc + response" where
  "historico_frequencia d aluno_id =
     (case historico_loop (frequencias d) aluno_id [] of
        Inl e \<Rightarrow> Inl e
      | Inr historico \<Rightarrow> Inr (200, Historico historico))"

section \<open>Requests that write\<close>

datatype request =
    Register json
  | Criar_classe json
  | Atualizar_classe int json
  | Deletar_classe int
  | Criar_aluno json
  | Atualizar_aluno int json
  | Deletar_aluno int
  | Registrar_frequencia json
  | Atualizar_frequencia int json
  | Deletar_frequencia int

text \<open>One request against the database.\<close>

fun handle :: "(string \<Rightarrow> string) \<Rightarrow> store \<Rightarrow> db \<Rightarrow> request \<Rightarrow> outcome" where
  "handle gen st d (Register data) = register gen (add_user st) d data"
| "handle gen st d (Criar_classe data) = criar_classe (add_classe st) d data"
| "handle gen st d (Atualizar_classe n data) = atualizar_classe (change_classe st) d n data"
| "handle gen st d (Deletar_classe n) = deletar_classe (delete_classe st) d n"
| "handle gen st d (Criar_aluno data) = criar_aluno (add_aluno st) d data"
| "handle gen st d (Atualizar_aluno n data) = atualizar_aluno (change_aluno st) d n data"
| "handle gen st d (Deletar_aluno n) = deletar_aluno (delete_aluno st) d n"
| "handle gen st d (Registrar_frequencia data) =
     registrar_frequencia (add_frequencia st) d data"
| "handle gen st d (Atualizar_frequencia n data) =
     atualizar_frequencia (change_frequencia st) d n data"
| "handle gen st d (Deletar_frequencia n) = deletar_frequencia (delete_frequencia st) d n"

section \<open>Example data\<close>

text \<open>An attendance record of class 1 with the given key, session date and attendance-log,
  and no counts.\<close>

definition frequencia_em :: "int \<Rightarrow> date \<Rightarrow> json \<Rightarrow> frequencia" where
  "frequencia_em n dia ps =
     \<lparr>f_id = n, f_classe_id = JInt 1, f_data = dia,
      total_biblia = JInt 0, total_present = JInt 0, total_absent = JInt 0,
      total_visitors = JInt 0, total_general = JInt 0, presencas = ps,
      f_created_at = 0, f_updated_at = 0\<rparr>"

text \<open>A database holding one class, created at time 10, and one student of that class.\<close>

definition uma_classe :: classe where
  "uma_classe = \<lparr>c_id = 1, c_nome = JStr ''Kids A'', c_professor = JStr ''Maria'',
     c_created_at = 10, c_updated_at = 10\<rparr>"

definition um_aluno :: aluno where
  "um_aluno = \<lparr>a_id = 1, a_nome = JStr ''Ana'',
     data_nascimento = \<lparr>year = 2010, month = 5, day = 1\<rparr>,
     status = JStr ''MATRICULADO'', a_classe_id = JInt 1,
     a_created_at = 20, a_updated_at = 20\<rparr>"

definition escola :: db where
  "escola = \<lparr>users = [], classes = [uma_classe], alunos = [um_aluno], frequencias = []\<rparr>"

section \<open>The history operation as the specification words it\<close>

text \<open>The entries of a record's attendance-log (none when the log is not a list), whether
  an entry carries the given student identifier, and the history: for each record, in order,
  the record paired with the first matching entry of its log, if there is one.\<close>

definition log_entries :: "frequencia \<Rightarrow> json list" where
  "log_entries r = (case presencas r of JList ps \<Rightarrow> ps | _ \<Rightarrow> [])"

definition entry_matches :: "int \<Rightarrow> json \<Rightarrow> bool" where
  "entry_matches sid e =
     (case e of
        JObj kvs \<Rightarrow> (case map_of kvs ''aluno_id'' of None \<Rightarrow> False | Some v \<Rightarrow> py_eq_int v sid)
      | _ \<Rightarrow> False)"

definition history_for_student :: "frequencia list \<Rightarrow> int \<Rightarrow> (frequencia \<times> json) list" where
  "history_for_student records sid =
     concat (map (\<lambda>r. case find (entry_matches sid) (log_entries r) of
                          None \<Rightarrow> []
                        | Some e \<Rightarrow> [(r, e)]) records)"

text \<open>The entries of a log that precede its first matching entry (all of them when none
  matches), and the condition that in every record these are JSON objects.\<close>

definition entries_before_match :: "int \<Rightarrow> frequencia \<Rightarrow> json list" where
  "entries_before_match sid r = takeWhile (\<lambda>e. \<not> entry_matches sid e) (log_entries r)"

definition entries_read_are_dicts :: "int \<Rightarrow> frequencia list \<Rightarrow> bool" where
  "entries_read_are_dicts sid records =
     list_all (\<lambda>r. list_all is_JObj (entries_before_match sid r)) records"

section \<open>Properties of the per-student history\<close>

lemma first_presenca_find:
  "list_all is_JObj (takeWhile (\<lambda>e. \<not> entry_matches sid e) ps) \<Longrightarrow>
   first_presenca ps sid = Inr (find (entry_matches sid) ps)"
proof (induction ps)
  case Nil
  show ?case by simp
next
  case (Cons p ps)
  show ?case
  proof (cases "entry_matches sid p")
    case True
    then obtain kvs v where p: "p = JObj kvs" and v: "map_of kvs ''aluno_id'' = Some v"
        and eq: "py_eq_int v sid"
      by (auto simp: entry_matches_def split: json.splits option.splits)
    from True have "find (entry_matches sid) (p # ps) = Some p"
      by simp
    moreover from p v eq have "first_presenca (p # ps) sid = Inr (Some p)"
      by simp
    ultimately show ?thesis
      by simp
  next
    case False
    with Cons.prems have "is_JObj p"
        and "list_all is_JObj (takeWhile (\<lambda>e. \<not> entry_matches sid e) ps)"
      by simp_all
    with Cons.IH obtain kvs where p: "p = JObj kvs"
        and ih: "first_presenca ps sid = Inr (find (entry_matches sid) ps)"
      by (cases p) simp_all
    from False p have "\<not> (case map_of kvs ''aluno_id'' of None \<Rightarrow> False | Some v \<Rightarrow> py_eq_int v sid)"
      by (simp add: entry_matches_def)
    with p ih have "first_presenca (p # ps) sid = Inr (find (entry_matches sid) ps)"
      by (simp split: option.splits)
    moreover from False have "find (entry_matches sid) (p # ps) = find (entry_matches sid) ps"
      by simp
    ultimately show ?thesis
      by simp
  qed
qed

lemma historico_loop_history:
  "entries_read_are_dicts sid records \<Longrightarrow>
   historico_loop records sid acc = Inr (acc @ history_for_student records sid)"
proof (induction records arbitrary: acc)
  case Nil
  show ?case by (simp add: history_for_student_def)
next
  case (Cons r rs)
  from Cons.prems have rs: "entries_read_are_dicts sid rs"
      and r: "list_all is_JObj (takeWhile (\<lambda>e. \<not> entry_matches sid e) (log_entries r))"
    by (simp_all add: entries_read_are_dicts_def entries_before_match_def)
  have tail: "history_for_student (r # rs) sid =
      (case find (entry_matches sid) (log_entries r) of None \<Rightarrow> [] | Some e \<Rightarrow> [(r, e)])
      @ history_for_student rs sid"
    by (simp add: history_for_student_def)
  show ?case
  proof (cases "presencas r")
    case (JList ps)
    with r have "first_presenca ps sid = Inr (find (entry_matches sid) ps)"
      by (simp add: first_presenca_find log_entries_def)
    with JList show ?thesis
      unfolding tail
      by (cases ps) (simp_all add: Cons.IH [OF rs] log_entries_def split: option.split)
  qed (simp_all add: tail Cons.IH [OF rs] log_entries_def)
qed

lemma historico_loop_skip:
  "\<not> is_JList (presencas f) \<or> presencas f = JList [] \<Longrightarrow>
   historico_loop (before @ f # after) sid acc = historico_loop (before @ after) sid acc"
proof (induction before arbitrary: acc)
  case Nil
  then show ?case by (cases "presencas f") auto
next
  case (Cons b bs)
  then show ?case
    by (simp split: json.split sum.split option.split)
qed

lemma all_dicts_entries_read:
  "list_all (\<lambda>r. list_all is_JObj (log_entries r)) records \<Longrightarrow>
   entries_read_are_dicts sid records"
  by (auto simp: entries_read_are_dicts_def entries_before_match_def list_all_iff
      dest: set_takeWhileD)

text \<open>
  C1, as the code has it. The handler calls \<open>presenca.get\<close> on each entry it reads, and it
  reads the entries of a list-valued log up to the first one that matches. For every
  collection of attendance records in which every entry read is a JSON object (the entries
  before the first match of each log; all entries of a log without a match), and every
  student id, the handler answers 200 with exactly the history the specification describes:
  for each record, in order, one element when the log has an entry whose \<open>aluno_id\<close> equals
  the id, namely the record paired with the first such entry in log order; a record
  without a matching entry contributes nothing, and a record with several matching entries
  contributes only the first.
\<close>

theorem historico_frequencia_first_match:
  "entries_read_are_dicts sid (frequencias d) \<Longrightarrow>
     historico_frequencia d sid =
       Inr (200, Historico (history_for_student (frequencias d) sid))
     \<and> history_for_student (frequencias d) sid =
         concat (map (\<lambda>r. case find (entry_matches sid) (log_entries r) of
                              None \<Rightarrow> [] | Some e \<Rightarrow> [(r, e)]) (frequencias d))"
  using historico_loop_history [of sid "frequencias d" "[]"]
  by (simp add: historico_frequencia_def history_for_student_def)

theorem historico_frequencia_first_match_witness:
  "entries_read_are_dicts 7 (frequencias (empty_db\<lparr>frequencias :=
     [frequencia_em 1 \<lparr>year = 2024, month = 3, day = 10\<rparr>
        (JList [JObj [(''aluno_id'', JInt 8)],
                JObj [(''aluno_id'', JInt 7), (''presente'', JBool True)],
                JInt 5,
                JObj [(''aluno_id'', JInt 7), (''presente'', JBool False)]]),
      frequencia_em 2 \<lparr>year = 2024, month = 3, day = 17\<rparr>
        (JList [JObj [(''aluno_id'', JInt 8)]])]\<rparr>))
   \<and> historico_frequencia (empty_db\<lparr>frequencias :=
     [frequencia_em 1 \<lparr>year = 2024, month = 3, day = 10\<rparr>
        (JList [JObj [(''aluno_id'', JInt 8)],
                JObj [(''aluno_id'', JInt 7), (''presente'', JBool True)],
                JInt 5,
                JObj [(''aluno_id'', JInt 7), (''presente'', JBool False)]]),
      frequencia_em 2 \<lparr>year = 2024, month = 3, day = 17\<rparr>
        (JList [JObj [(''aluno_id'', JInt 8)]])]\<rparr>) 7
   = Inr (200, Historico
       [(frequencia_em 1 \<lparr>year = 2024, month = 3, day = 10\<rparr>
           (JList [JObj [(''aluno_id'', JInt 8)],
                   JObj [(''aluno_id'', JInt 7), (''presente'', JBool True)],
                   JInt 5,
                   JObj [(''aluno_id'', JInt 7), (''presente'', JBool False)]]),
         JObj [(''aluno_id'', JInt 7), (''presente'', JBool True)])])"
proof -
  let ?r1 = "frequencia_em 1 \<lparr>year = 2024, month = 3, day = 10\<rparr>
        (JList [JObj [(''aluno_id'', JInt 8)],
                JObj [(''aluno_id'', JInt 7), (''presente'', JBool True)],
                JInt 5,
                JObj [(''aluno_id'', JInt 7), (''presente'', JBool False)]])"
  let ?r2 = "frequencia_em 2 \<lparr>year = 2024, month = 3, day = 17\<rparr>
        (JList [JObj [(''aluno_id'', JInt 8)]])"
  let ?d = "empty_db\<lparr>frequencias := [?r1, ?r2]\<rparr>"
  have h: "entries_read_are_dicts 7 (frequencias ?d)"
    by (simp add: entries_read_are_dicts_def entries_before_match_def log_entries_def
        entry_matches_def frequencia_em_def)
  have "history_for_student (frequencias ?d) 7 =
      [(?r1, JObj [(''aluno_id'', JInt 7), (''presente'', JBool True)])]"
    by (simp add: history_for_student_def log_entries_def entry_matches_def frequencia_em_def)
  with historico_frequencia_first_match [OF h] h show ?thesis
    by simp
qed

text \<open>
  C1 as stated, for every collection of attendance records, fails: the log
  \<open>[1, {"aluno_id": 7}]\<close> contains an entry whose student identifier is 7, yet the
  history of student 7 is not a 200 answer with one element for the record: the handler
  calls \<open>get\<close> on the entry \<open>1\<close> and the \<open>AttributeError\<close> leaves it.
\<close>

theorem historico_frequencia_non_dict_entry:
  "find (entry_matches 7)
     (log_entries (frequencia_em 1 \<lparr>year = 2024, month = 3, day = 10\<rparr>
        (JList [JInt 1, JObj [(''aluno_id'', JInt 7)]])))
     = Some (JObj [(''aluno_id'', JInt 7)])
   \<and> historico_frequencia (empty_db\<lparr>frequencias :=
        [frequencia_em 1 \<lparr>year = 2024, month = 3, day = 10\<rparr>
           (JList [JInt 1, JObj [(''aluno_id'', JInt 7)]])]\<rparr>) 7
     = Inl AttributeError"
  by (simp add: historico_frequencia_def log_entries_def entry_matches_def frequencia_em_def)

text \<open>
  C10, as the code has it. A record whose attendance-log is not a list (null, a dict, a
  string, a number) or is the empty list, which is what is stored when the log is absent
  at creation, is skipped: the handler answers exactly as it does on the remaining
  records, so the record adds neither a history element nor an error of its own. The
  answer is 200 with the history of the remaining records whenever every entry the
  handler reads in the remaining records is a JSON object.
\<close>

theorem historico_frequencia_skips_non_list:
  "\<not> is_JList (presencas f) \<or> presencas f = JList [] \<Longrightarrow>
     historico_frequencia (d\<lparr>frequencias := before @ f # after\<rparr>) sid =
       historico_frequencia (d\<lparr>frequencias := before @ after\<rparr>) sid
     \<and> (entries_read_are_dicts sid (before @ after) \<longrightarrow>
          historico_frequencia (d\<lparr>frequencias := before @ f # after\<rparr>) sid =
            Inr (200, Historico (history_for_student (before @ after) sid)))"
  using historico_loop_skip [of f before after sid "[]"]
    historico_loop_history [of sid "before @ after" "[]"]
  by (simp add: historico_frequencia_def)

theorem historico_frequencia_skips_non_list_witness:
  "presencas (frequencia_em 2 \<lparr>year = 2024, month = 3, day = 17\<rparr> JNull) = JNull
   \<and> entries_read_are_dicts 7
        ([frequencia_em 1 \<lparr>year = 2024, month = 3, day = 10\<rparr>
            (JList [JObj [(''aluno_id'', JInt 7), (''presente'', JBool True)]])]
         @ [frequencia_em 3 \<lparr>year = 2024, month = 3, day = 24\<rparr> (JList [])])
   \<and> historico_frequencia
        (empty_db\<lparr>frequencias :=
          [frequencia_em 1 \<lparr>year = 2024, month = 3, day = 10\<rparr>
             (JList [JObj [(''aluno_id'', JInt 7), (''presente'', JBool True)]])]
          @ frequencia_em 2 \<lparr>year = 2024, month = 3, day = 17\<rparr> JNull
          # [frequencia_em 3 \<lparr>year = 2024, month = 3, day = 24\<rparr> (JList [])]\<rparr>) 7
      = Inr (200, Historico
          [(frequencia_em 1 \<lparr>year = 2024, month = 3, day = 10\<rparr>
              (JList [JObj [(''aluno_id'', JInt 7), (''presente'', JBool True)]]),
            JObj [(''aluno_id'', JInt 7), (''presente'', JBool True)])])"
proof -
  let ?r1 = "frequencia_em 1 \<lparr>year = 2024, month = 3, day = 10\<rparr>
             (JList [JObj [(''aluno_id'', JInt 7), (''presente'', JBool True)]])"
  let ?f = "frequencia_em 2 \<lparr>year = 2024, month = 3, day = 17\<rparr> JNull"
  let ?r3 = "frequencia_em 3 \<lparr>year = 2024, month = 3, day = 24\<rparr> (JList [])"
  have h: "\<not> is_JList (presencas ?f) \<or> presencas ?f = JList []"
    by (simp add: frequencia_em_def)
  have r: "entries_read_are_dicts 7 ([?r1] @ [?r3])"
    by (simp add: entries_read_are_dicts_def entries_before_match_def log_entries_def
        entry_matches_def frequencia_em_def)
  have e: "history_for_student ([?r1] @ [?r3]) 7 =
      [(?r1, JObj [(''aluno_id'', JInt 7), (''presente'', JBool True)])]"
    by (simp add: history_for_student_def log_entries_def entry_matches_def frequencia_em_def)
  from historico_frequencia_skips_non_list
    [where f = "?f" and d = empty_db and before = "[?r1]" and after = "[?r3]" and sid = 7,
     OF h] r
  have "historico_frequencia (empty_db\<lparr>frequencias := [?r1] @ ?f # [?r3]\<rparr>) 7 =
      Inr (200, Historico (history_for_student ([?r1] @ [?r3]) 7))"
    by blast
  then have "historico_frequencia (empty_db\<lparr>frequencias := [?r1] @ ?f # [?r3]\<rparr>) 7 =
      Inr (200, Historico [(?r1, JObj [(''aluno_id'', JInt 7), (''presente'', JBool True)])])"
    unfolding e .
  moreover have "presencas ?f = JNull"
    by (simp add: frequencia_em_def)
  ultimately show ?thesis
    using r by (intro conjI)
qed

text \<open>
  C10 as stated, that the operation still returns a 200 result and never an error, fails:
  with a record whose log is null beside a record whose log is \<open>[1]\<close>, the null log is
  skipped, and the handler then calls \<open>get\<close> on the entry \<open>1\<close> of the other record; the
  \<open>AttributeError\<close> leaves it.
\<close>

theorem historico_frequencia_null_log_beside_bad_log:
  "presencas (frequencia_em 1 \<lparr>year = 2024, month = 3, day = 10\<rparr> JNull) = JNull
   \<and> historico_frequencia (empty_db\<lparr>frequencias :=
        [frequencia_em 1 \<lparr>year = 2024, month = 3, day = 10\<rparr> JNull,
         frequencia_em 2 \<lparr>year = 2024, month = 3, day = 17\<rparr> (JList [JInt 1])]\<rparr>) 7
     = Inl AttributeError"
  by (simp add: historico_frequencia_def frequencia_em_def)

section \<open>Properties of the date-range report\<close>

lemma date_le_refl: "date_le a a"
  by (simp add: date_le_def)

lemma date_le_antisym: "date_le a b \<Longrightarrow> date_le b a \<Longrightarrow> (a :: date) = b"
  by (cases a, cases b) (auto simp: date_le_def)

lemma date_le_trans: "date_le a b \<Longrightarrow> date_le b c \<Longrightarrow> date_le a c"
  by (auto simp: date_le_def)

lemma date_le_total: "date_le a b \<or> date_le b a"
  by (auto simp: date_le_def)

lemma strptime_ymd_midnight: "strptime_ymd v = Inr dt \<Longrightarrow> dt = midnight (dt_date dt)"
  by (auto simp: strptime_ymd_def midnight_def split: json.splits option.splits if_splits)

lemma datetime_le_midnight: "datetime_le (midnight a) (midnight b) = date_le a b"
  by (simp add: datetime_le_def midnight_def date_le_refl)

text \<open>
  C7. When both query parameters parse as dates, the date-range report answers 200 with
  the attendance records, in stored order, whose session date lies between the start and
  the end date, both bounds included: a record of the collection is in the answer exactly
  when start \<open>\<le>\<close> date \<open>\<le>\<close> end. A record dated on the start or on the end date is in the
  answer when start \<open>\<le>\<close> end; a record dated before the start or after the end date is not.
\<close>

theorem relatorio_semanal_inclusive:
  assumes "strptime_ymd (arg_value data_inicio) = Inr start_date"
      and "strptime_ymd (arg_value data_fim) = Inr end_date"
  shows "\<exists>rs. relatorio_semanal d data_inicio data_fim = Inr (200, Frequencias rs)
      \<and> rs = filter (\<lambda>f. date_le (dt_date start_date) (f_data f) \<and>
                         date_le (f_data f) (dt_date end_date)) (frequencias d)
      \<and> (\<forall>f. f \<in> set rs \<longleftrightarrow>
             f \<in> set (frequencias d) \<and> date_le (dt_date start_date) (f_data f) \<and>
             date_le (f_data f) (dt_date end_date))
      \<and> (\<forall>f \<in> set (frequencias d).
             date_le (dt_date start_date) (dt_date end_date) \<and>
             (f_data f = dt_date start_date \<or> f_data f = dt_date end_date) \<longrightarrow> f \<in> set rs)
      \<and> (\<forall>f \<in> set (frequencias d).
             (f_data f \<noteq> dt_date start_date \<and> date_le (f_data f) (dt_date start_date)) \<or>
             (f_data f \<noteq> dt_date end_date \<and> date_le (dt_date end_date) (f_data f))
             \<longrightarrow> f \<notin> set rs)"
proof -
  let ?rs = "filter (\<lambda>f. date_le (dt_date start_date) (f_data f) \<and>
                         date_le (f_data f) (dt_date end_date)) (frequencias d)"
  have s: "start_date = midnight (dt_date start_date)"
    using assms(1) by (rule strptime_ymd_midnight)
  have e: "end_date = midnight (dt_date end_date)"
    using assms(2) by (rule strptime_ymd_midnight)
  have ks: "datetime_le start_date (midnight x) = date_le (dt_date start_date) x" for x
    by (metis s datetime_le_midnight)
  have ke: "datetime_le (midnight x) end_date = date_le x (dt_date end_date)" for x
    by (metis e datetime_le_midnight)
  have 1: "relatorio_semanal d data_inicio data_fim = Inr (200, Frequencias ?rs)"
    using assms by (simp add: relatorio_semanal_def ks ke)
  have 2: "\<forall>f. f \<in> set ?rs \<longleftrightarrow>
             f \<in> set (frequencias d) \<and> date_le (dt_date start_date) (f_data f) \<and>
             date_le (f_data f) (dt_date end_date)"
    by simp
  have 3: "\<forall>f \<in> set (frequencias d).
             date_le (dt_date start_date) (dt_date end_date) \<and>
             (f_data f = dt_date start_date \<or> f_data f = dt_date end_date) \<longrightarrow> f \<in> set ?rs"
    by (auto simp: date_le_refl)
  have 4: "\<forall>f \<in> set (frequencias d).
             (f_data f \<noteq> dt_date start_date \<and> date_le (f_data f) (dt_date start_date)) \<or>
             (f_data f \<noteq> dt_date end_date \<and> date_le (dt_date end_date) (f_data f))
             \<longrightarrow> f \<notin> set ?rs"
    by (auto dest: date_le_antisym)
  from 1 2 3 4 show ?thesis by blast
qed

lemmas strptime_eval = strptime_ymd_def parse_Y_def expect_dash_def parse_m_dash_def parse_d_def
  two_digit_month_def is_digit_def digit_val_def days_in_month_def is_leap_def

theorem relatorio_semanal_inclusive_witness:
  "strptime_ymd (arg_value (Some ''2024-03-10'')) =
     Inr (midnight \<lparr>year = 2024, month = 3, day = 10\<rparr>)
   \<and> strptime_ymd (arg_value (Some ''2024-03-17'')) =
     Inr (midnight \<lparr>year = 2024, month = 3, day = 17\<rparr>)
   \<and> relatorio_semanal
        (empty_db\<lparr>frequencias :=
           [frequencia_em 1 \<lparr>year = 2024, month = 3, day = 9\<rparr> JNull,
            frequencia_em 2 \<lparr>year = 2024, month = 3, day = 10\<rparr> JNull,
            frequencia_em 3 \<lparr>year = 2024, month = 3, day = 17\<rparr> JNull,
            frequencia_em 4 \<lparr>year = 2024, month = 3, day = 18\<rparr> JNull]\<rparr>)
        (Some ''2024-03-10'') (Some ''2024-03-17'')
     = Inr (200, Frequencias
         [frequencia_em 2 \<lparr>year = 2024, month = 3, day = 10\<rparr> JNull,
          frequencia_em 3 \<lparr>year = 2024, month = 3, day = 17\<rparr> JNull])"
proof -
  let ?d = "empty_db\<lparr>frequencias :=
           [frequencia_em 1 \<lparr>year = 2024, month = 3, day = 9\<rparr> JNull,
            frequencia_em 2 \<lparr>year = 2024, month = 3, day = 10\<rparr> JNull,
            frequencia_em 3 \<lparr>year = 2024, month = 3, day = 17\<rparr> JNull,
            frequencia_em 4 \<lparr>year = 2024, month = 3, day = 18\<rparr> JNull]\<rparr>"
  have a: "strptime_ymd (arg_value (Some ''2024-03-10'')) =
     Inr (midnight \<lparr>year = 2024, month = 3, day = 10\<rparr>)"
    by (simp add: strptime_eval)
  have b: "strptime_ymd (arg_value (Some ''2024-03-17'')) =
     Inr (midnight \<lparr>year = 2024, month = 3, day = 17\<rparr>)"
    by (simp add: strptime_eval)
  from relatorio_semanal_inclusive [OF a b, of ?d]
  obtain rs where r: "relatorio_semanal ?d (Some ''2024-03-10'') (Some ''2024-03-17'') =
        Inr (200, Frequencias rs)"
    and rs: "rs = filter (\<lambda>f. date_le (dt_date (midnight \<lparr>year = 2024, month = 3, day = 10\<rparr>)) (f_data f) \<and>
                         date_le (f_data f) (dt_date (midnight \<lparr>year = 2024, month = 3, day = 17\<rparr>)))
                  (frequencias ?d)"
    by blast
  have "rs = [frequencia_em 2 \<lparr>year = 2024, month = 3, day = 10\<rparr> JNull,
          frequencia_em 3 \<lparr>year = 2024, month = 3, day = 17\<rparr> JNull]"
    unfolding rs by (simp add: frequencia_em_def date_le_def midnight_def)
  with r a b show ?thesis by simp
qed

section \<open>Faults that leave a handler\<close>

text \<open>
  C2. The claim is that every validation error becomes a 4xx response. The monthly report
  does not do so: with a \<open>mes\<close> that is not a number, \<open>int(mes)\<close> raises \<open>ValueError\<close>
  outside any \<open>try\<close> and the exception leaves the handler, whereas the date-range report
  answers 400 to a parameter it cannot parse. A class update whose body is JSON \<open>null\<close>
  raises \<open>TypeError\<close> at \<open>'nome' in data\<close> in the same way.
\<close>

theorem relatorio_mensal_unhandled_fault:
  "relatorio_mensal d (Some ''abc'') (Some ''2024'') = Inl ValueError
   \<and> relatorio_semanal d (Some ''abc'') (Some ''2024-03-17'') =
       Inr (400, MsgError Formato_de_data_invalido ValueError)
   \<and> atualizar_classe commit escola 1 JNull = (Inl TypeError, escola)"
  by (simp add: relatorio_mensal_def relatorio_semanal_def py_int_def int_max_str_digits_def
      strip_def is_space_def unsigned_int_def strptime_eval atualizar_classe_def find_classe_def
      escola_def uma_classe_def assigned_def)

theorem relatorio_mensal_unhandled_fault_witness:
  "relatorio_mensal empty_db (Some ''abc'') (Some ''2024'') = Inl ValueError"
  using relatorio_mensal_unhandled_fault [of empty_db] by (rule conjunct1)

section \<open>Properties of login\<close>





text \<open>
  C5. A login that succeeds at time \<open>now\<close> returns a token whose identity is the key of the
  user found under the given username and whose expiry is \<open>now\<close> plus 3600 seconds.
  Verified at any time before the expiry, the token gives back that identity; verified
  more than one hour after the login, it is rejected as expired.
\<close>

theorem login_token_expiry:
  assumes "login check_password_hash sign secret now d data = Inr (200, AccessToken t)"
  shows "(\<exists>name user. py_get data ''username'' = Inr (JStr name) \<and>
            find (\<lambda>x. username x = name) (users d) = Some user \<and> t_identity t = u_id user)
       \<and> t_expiry t = now + 3600
       \<and> (\<forall>later. later < now + 3600 \<longrightarrow>
             verify_token sign secret later t = Inr (t_identity t))
       \<and> (\<forall>later. now + 3600 < later \<longrightarrow>
             verify_token sign secret later t = Inl ExpiredToken)"
  using assms
  by (auto simp: login_def create_access_token_def verify_token_def one_hour_def
      split: if_splits sum.splits json.splits option.splits)

theorem login_token_expiry_witness:
  "login (\<lambda>h p. Inr (p = JStr h)) (\<lambda>k m. length k + snd m) ''k'' 100
     (empty_db\<lparr>users := [\<lparr>u_id = 1, username = ''ana'', password_hash = ''certa'',
        u_created_at = 5\<rparr>]\<rparr>)
     (JObj [(''username'', JStr ''ana''), (''password'', JStr ''certa'')])
   = Inr (200, AccessToken \<lparr>t_identity = 1, t_expiry = 3700, t_signature = 3701\<rparr>)
   \<and> verify_token (\<lambda>k m. length k + snd m) ''k'' 3699
       \<lparr>t_identity = 1, t_expiry = 3700, t_signature = 3701\<rparr> = Inr 1
   \<and> verify_token (\<lambda>k m. length k + snd m) ''k'' 3701
       \<lparr>t_identity = 1, t_expiry = 3700, t_signature = 3701\<rparr> = Inl ExpiredToken"
proof -
  let ?chk = "\<lambda>h p. Inr (p = JStr h) :: exc + bool"
  let ?sign = "\<lambda>(k :: string) (m :: int \<times> nat). length k + snd m"
  let ?d = "empty_db\<lparr>users := [\<lparr>u_id = 1, username = ''ana'', password_hash = ''certa'',
        u_created_at = 5\<rparr>]\<rparr>"
  let ?data = "JObj [(''username'', JStr ''ana''), (''password'', JStr ''certa'')]"
  let ?t = "\<lparr>t_identity = 1, t_expiry = 3700, t_signature = 3701\<rparr>"
  have h: "login ?chk ?sign ''k'' 100 ?d ?data = Inr (200, AccessToken ?t)"
    by (simp add: login_def create_access_token_def one_hour_def)
  note t = login_token_expiry [OF h]
  from t have "\<forall>later. later < 100 + 3600 \<longrightarrow> verify_token ?sign ''k'' later ?t = Inr (t_identity ?t)"
    by blast
  then have v1: "verify_token ?sign ''k'' 3699 ?t = Inr 1"
    by simp
  from t have "\<forall>later. 100 + 3600 < later \<longrightarrow> verify_token ?sign ''k'' later ?t = Inl ExpiredToken"
    by blast
  then have v2: "verify_token ?sign ''k'' 3701 ?t = Inl ExpiredToken"
    by simp
  show ?thesis by (intro conjI h v1 v2)
qed

section \<open>Required fields: presence against non-emptiness\<close>




section \<open>Validation errors persist nothing\<close>

lemma answer_not_400: "code \<noteq> 400 \<Longrightarrow> fst (answer code to_body committed) \<noteq> Inr (400, b)"
  by (auto simp: answer_def split: prod.splits sum.splits)

lemma register_400:
  "fst (register gen commit d data) = Inr (400, b) \<Longrightarrow> snd (register gen commit d data) = d"
  by (auto simp: register_def answer_not_400
      split: sum.splits option.splits if_splits json.splits)

lemma criar_classe_400:
  "fst (criar_classe commit d data) = Inr (400, b) \<Longrightarrow> snd (criar_classe commit d data) = d"
  by (auto simp: criar_classe_def answer_not_400 split: sum.splits if_splits)

lemma atualizar_classe_400:
  "fst (atualizar_classe commit d n data) = Inr (400, b) \<Longrightarrow>
   snd (atualizar_classe commit d n data) = d"
  by (auto simp: atualizar_classe_def answer_not_400 split: sum.splits option.splits)

lemma deletar_classe_400:
  "fst (deletar_classe commit d n) = Inr (400, b) \<Longrightarrow> snd (deletar_classe commit d n) = d"
  by (auto simp: deletar_classe_def answer_not_400 split: option.splits)

lemma criar_aluno_400:
  "fst (criar_aluno commit d data) = Inr (400, b) \<Longrightarrow> snd (criar_aluno commit d data) = d"
  by (auto simp: criar_aluno_def answer_not_400 split: sum.splits if_splits)

lemma atualizar_aluno_400:
  "fst (atualizar_aluno commit d n data) = Inr (400, b) \<Longrightarrow>
   snd (atualizar_aluno commit d n data) = d"
  by (auto simp: atualizar_aluno_def answer_not_400 split: sum.splits option.splits)

lemma deletar_aluno_400:
  "fst (deletar_aluno commit d n) = Inr (400, b) \<Longrightarrow> snd (deletar_aluno commit d n) = d"
  by (auto simp: deletar_aluno_def answer_not_400 split: option.splits)

lemma registrar_frequencia_400:
  "fst (registrar_frequencia commit d data) = Inr (400, b) \<Longrightarrow>
   snd (registrar_frequencia commit d data) = d"
  by (auto simp: registrar_frequencia_def answer_not_400 split: sum.splits if_splits)

lemma atualizar_frequencia_400:
  "fst (atualizar_frequencia commit d n data) = Inr (400, b) \<Longrightarrow>
   snd (atualizar_frequencia commit d n data) = d"
  by (auto simp: atualizar_frequencia_def answer_not_400 split: sum.splits option.splits)

lemma deletar_frequencia_400:
  "fst (deletar_frequencia commit d n) = Inr (400, b) \<Longrightarrow>
   snd (deletar_frequencia commit d n) = d"
  by (auto simp: deletar_frequencia_def answer_not_400 split: option.splits)

lemma in_keys_iff: "k \<in> fst ` set kvs \<longleftrightarrow> map_of kvs k \<noteq> None"
  by (simp add: map_of_eq_None_iff)

lemma assigned_JObj: "assigned k (JObj kvs) = Inr (map_of kvs k)"
  by (auto simp: assigned_def in_keys_iff split: option.splits)

lemma handle_400: "fst (handle gen st d req) = Inr (400, b) \<Longrightarrow> snd (handle gen st d req) = d"
  by (cases req)
    (simp_all add: register_400 criar_classe_400 atualizar_classe_400 deletar_classe_400
      criar_aluno_400 atualizar_aluno_400 deletar_aluno_400 registrar_frequencia_400
      atualizar_frequencia_400 deletar_frequencia_400)

text \<open>
  C3. A request that is answered with a validation error (status 400: a missing field, a
  date that does not parse, a taken username) leaves the database exactly as it was,
  whatever a commit would have done. In particular a student update whose
  \<open>data_nascimento\<close> does not parse is answered 400 with the parse error, and the stored
  student keeps every field, also \<open>nome\<close> when the body supplied one: the assignment made
  before the date was parsed is never committed.
\<close>

theorem validation_error_writes_nothing:
  "(fst (handle gen st d req) = Inr (400, b) \<longrightarrow> snd (handle gen st d req) = d)
   \<and> (find_aluno d n = Some aluno \<and> map_of kvs ''data_nascimento'' = Some dn \<and>
        strptime_ymd dn = Inl e \<longrightarrow>
          atualizar_aluno commit d n (JObj kvs) =
            (Inr (400, MsgError Formato_de_data_invalido e), d)
          \<and> find_aluno (snd (atualizar_aluno commit d n (JObj kvs))) n = Some aluno)"
  by (simp add: handle_400 atualizar_aluno_def assigned_JObj assigned_date_def in_keys_iff
      strptime_item_def)

theorem validation_error_writes_nothing_witness:
  "atualizar_aluno
     (\<lambda>d a s. (Inr (a\<lparr>a_nome := (case sa_nome s of None \<Rightarrow> a_nome a | Some v \<Rightarrow> v)\<rparr>),
               d\<lparr>alunos := [a\<lparr>a_nome := (case sa_nome s of None \<Rightarrow> a_nome a | Some v \<Rightarrow> v)\<rparr>]\<rparr>))
     escola 1
     (JObj [(''nome'', JStr ''Bia''), (''data_nascimento'', JStr ''31/12/2010'')])
     = (Inr (400, MsgError Formato_de_data_invalido ValueError), escola)
   \<and> find_aluno escola 1 = Some um_aluno
   \<and> a_nome um_aluno = JStr ''Ana''"
proof -
  let ?kvs = "[(''nome'', JStr ''Bia''), (''data_nascimento'', JStr ''31/12/2010'')]"
  let ?commit = "\<lambda>d a s.
      (Inr (a\<lparr>a_nome := (case sa_nome s of None \<Rightarrow> a_nome a | Some v \<Rightarrow> v)\<rparr>) :: exc + aluno,
       d\<lparr>alunos := [a\<lparr>a_nome := (case sa_nome s of None \<Rightarrow> a_nome a | Some v \<Rightarrow> v)\<rparr>]\<rparr>)"
  have h: "find_aluno escola 1 = Some um_aluno \<and>
      map_of ?kvs ''data_nascimento'' = Some (JStr ''31/12/2010'') \<and>
      strptime_ymd (JStr ''31/12/2010'') = Inl ValueError"
    by (simp add: find_aluno_def escola_def um_aluno_def strptime_eval)
  note t = validation_error_writes_nothing [where d = escola and n = 1 and aluno = um_aluno
      and kvs = ?kvs and dn = "JStr ''31/12/2010''" and e = ValueError and commit = ?commit]
  from t h have "atualizar_aluno ?commit escola 1 (JObj ?kvs) =
      (Inr (400, MsgError Formato_de_data_invalido ValueError), escola)"
    by blast
  moreover have "a_nome um_aluno = JStr ''Ana''"
    by (simp add: um_aluno_def)
  ultimately show ?thesis
    using h by blast
qed

section \<open>Updates assign the fields present\<close>




section \<open>The status of a student\<close>

text \<open>
  C4. The claim is that every stored student's status is one of the two values and that
  every operation keeps it so. The update handler does not: it assigns \<open>data['status']\<close>
  without looking at the value, so \<open>PUT /alunos/1\<close> with body \<open>{"status": null}\<close> commits
  the student with the status \<open>None\<close>, whatever the commit is. The \<open>status\<close> column is
  declared without \<open>nullable=False\<close>, unlike \<open>nome\<close>, \<open>data_nascimento\<close> and \<open>classe_id\<close>
  beside it, so a commit that writes the assignment stores \<open>NULL\<close>: the answer is 200 and
  the stored student, whose status was \<open>MATRICULADO\<close>, has neither of the two values.
\<close>

theorem atualizar_aluno_null_status:
  "atualizar_aluno commit escola 1 (JObj [(''status'', JNull)]) =
     answer 200 AlunoBody
       (commit escola um_aluno
          \<lparr>sa_nome = None, sa_data_nascimento = None, sa_classe_id = None,
           sa_status = Some JNull\<rparr>)
   \<and> atualizar_aluno
       (\<lambda>d a s. (Inr (a\<lparr>status := (case sa_status s of None \<Rightarrow> status a | Some v \<Rightarrow> v)\<rparr>),
                 d\<lparr>alunos := [a\<lparr>status := (case sa_status s of None \<Rightarrow> status a | Some v \<Rightarrow> v)\<rparr>]\<rparr>))
       escola 1 (JObj [(''status'', JNull)])
     = (Inr (200, AlunoBody (um_aluno\<lparr>status := JNull\<rparr>)),
        escola\<lparr>alunos := [um_aluno\<lparr>status := JNull\<rparr>]\<rparr>)
   \<and> status um_aluno = JStr ''MATRICULADO''"
  by (simp add: atualizar_aluno_def find_aluno_def assigned_JObj assigned_date_def answer_def
      escola_def um_aluno_def)

theorem atualizar_aluno_null_status_witness:
  "atualizar_aluno (\<lambda>d a s. (Inl DatabaseError, d)) escola 1 (JObj [(''status'', JNull)]) =
     (Inl DatabaseError, escola)"
proof -
  let ?commit = "\<lambda>(d :: db) (a :: aluno) (s :: aluno_assign). (Inl DatabaseError :: exc + aluno, d)"
  from atualizar_aluno_null_status [where commit = ?commit]
  have "atualizar_aluno ?commit escola 1 (JObj [(''status'', JNull)]) =
     answer 200 AlunoBody
       (?commit escola um_aluno
          \<lparr>sa_nome = None, sa_data_nascimento = None, sa_classe_id = None,
           sa_status = Some JNull\<rparr>)"
    by (rule conjunct1)
  then show ?thesis
    by (simp add: answer_def)
qed

end
